theory Spec2Isabelle
  imports Complex_Main
begin

section \<open>Python floats\<close>

text \<open>
  The rates, the volatility adjustment and the deltas of the program are Python floats, that
  is IEEE-754 binary64 numbers. A finite float is modelled by the rational number it denotes;
  every arithmetic operation computes the exact result and rounds it to the nearest
  representable number, ties to even (53 significant bits, gradual underflow below
  \<open>2 ^ - 1022\<close>). Infinities and NaN as values of a rate are outside the model: a NaN
  cell of the table is the null cell, and no operation on rates of plausible size overflows.
\<close>

type_synonym float = rat

fun bit_length :: "nat \<Rightarrow> nat" where
  "bit_length n = (if n = 0 then 0 else Suc (bit_length (n div 2)))"

definition pow2 :: "int \<Rightarrow> rat" where
  "pow2 k = (if 0 \<le> k then 2 ^ nat k else 1 / 2 ^ nat (- k))"

definition floor_log2 :: "rat \<Rightarrow> int" where
  "floor_log2 q =
     (let k = int (bit_length (nat (fst (quotient_of q))))
            - int (bit_length (nat (snd (quotient_of q))))
      in if pow2 k \<le> q then k else k - 1)"

definition round_half_even :: "rat \<Rightarrow> int" where
  "round_half_even q =
     (let n = \<lfloor>q\<rfloor>; r = q - of_int n
      in if r < 1 / 2 then n
         else if 1 / 2 < r then n + 1
         else if even n then n else n + 1)"

definition fl :: "rat \<Rightarrow> float" where
  "fl q =
     (if q = 0 then 0
      else let u = pow2 (max (floor_log2 \<bar>q\<bar> - 52) (- 1074))
           in of_int (round_half_even (q / u)) * u)"

definition fsub :: "float \<Rightarrow> float \<Rightarrow> float" where
  "fsub a b = fl (a - b)"

definition fmul :: "float \<Rightarrow> float \<Rightarrow> float" where
  "fmul a b = fl (a * b)"

section \<open>config.py\<close>

definition TARGET_MATURITIES :: "nat list" where
  "TARGET_MATURITIES = [1, 5, 10, 20, 30]"

definition ALERT_THRESHOLD_MOM :: rat where
  "ALERT_THRESHOLD_MOM = 50"

definition ALERT_THRESHOLD_YTD :: rat where
  "ALERT_THRESHOLD_YTD = 100"

section \<open>Dates\<close>

text \<open>
  A \<open>datetime\<close> at midnight, as \<open>strptime(_, '%Y%m%d')\<close> and the CSV reader produce them:
  year, month and day. Dates are compared, and subtracted into a number of days, through
  their proleptic Gregorian ordinal, as Python's \<open>datetime\<close> and the \<open>Timestamp\<close> of pandas
  do.
\<close>

datatype datetime = Datetime (year: int) (month: int) (day: int)

definition is_leap :: "int \<Rightarrow> bool" where
  "is_leap y \<longleftrightarrow> y mod 4 = 0 \<and> (y mod 100 \<noteq> 0 \<or> y mod 400 = 0)"

definition days_in_month :: "int \<Rightarrow> int \<Rightarrow> int" where
  "days_in_month y m =
     (if m = 2 then (if is_leap y then 29 else 28)
      else if m = 4 \<or> m = 6 \<or> m = 9 \<or> m = 11 then 30 else 31)"

definition days_before_year :: "int \<Rightarrow> int" where
  "days_before_year y = (y - 1) * 365 + (y - 1) div 4 - (y - 1) div 100 + (y - 1) div 400"

definition days_before_month :: "int \<Rightarrow> int \<Rightarrow> int" where
  "days_before_month y m = sum_list (map (days_in_month y) [1..m - 1])"

definition toordinal :: "datetime \<Rightarrow> int" where
  "toordinal d = days_before_year (year d) + days_before_month (year d) (month d) + day d"

definition valid_date :: "datetime \<Rightarrow> bool" where
  "valid_date d \<longleftrightarrow>
     1 \<le> month d \<and> month d \<le> 12 \<and> 1 \<le> day d \<and> day d \<le> days_in_month (year d) (month d)"

text \<open>\<open>d - timedelta(days=1)\<close>\<close>

definition minus_one_day :: "datetime \<Rightarrow> datetime" where
  "minus_one_day d =
     (if 1 < day d then Datetime (year d) (month d) (day d - 1)
      else if 1 < month d
        then Datetime (year d) (month d - 1) (days_in_month (year d) (month d - 1))
      else Datetime (year d - 1) 12 31)"

section \<open>utils.py\<close>

text \<open>\<open>calculate_bps_change(old_rate, new_rate)\<close>: \<open>(new_rate - old_rate) * 10000\<close>.\<close>

definition calculate_bps_change :: "float \<Rightarrow> float \<Rightarrow> float" where
  "calculate_bps_change old_rate new_rate = fmul (fsub new_rate old_rate) 10000"

text \<open>
  \<open>get_previous_month_date\<close>: \<open>reference_date.replace(day=1) - timedelta(days=1)\<close>;
  \<open>get_year_start_date\<close>: \<open>datetime(reference_date.year, 1, 1)\<close>.
\<close>

definition get_previous_month_date :: "datetime \<Rightarrow> datetime" where
  "get_previous_month_date reference_date =
     minus_one_day (Datetime (year reference_date) (month reference_date) 1)"

definition get_year_start_date :: "datetime \<Rightarrow> datetime" where
  "get_year_start_date reference_date = Datetime (year reference_date) 1 1"

section \<open>The observation and the historical table\<close>

text \<open>
  The dictionary handed over by the processor: \<open>reference_date\<close>, \<open>country\<close>, \<open>rates\<close> (a
  dictionary from maturity to rate, in insertion order) and \<open>va\<close> (a float or \<open>None\<close>).
\<close>

record observation =
  reference_date :: datetime
  country :: string
  rates :: "(nat \<times> float) list"
  va :: "float option"

text \<open>
  The historical data is a pandas \<open>DataFrame\<close>: a list of column labels and a list of rows.
  The label \<open>f'rate_{m}y'\<close> is \<open>Rate m\<close>. Every row has a date and a country; its other
  cells hold a float or are null (\<open>NaN\<close>), which is \<open>None\<close>.
\<close>

datatype column =
  Reference_date | Country | Rate nat | Va | Llp | Alpha | Ufr | Cra | Convergence | Coupon_freq

record row =
  row_date :: datetime
  row_country :: string
  cells :: "column \<Rightarrow> float option"

record frame =
  columns :: "column list"
  rows :: "row list"

text \<open>
  \<open>df.empty\<close>: some axis has length zero. A table with a row has the columns of its date
  and country, so it is empty exactly when it has no row.
\<close>

definition frame_empty :: "frame \<Rightarrow> bool" where
  "frame_empty f \<longleftrightarrow> rows f = []"

text \<open>\<open>df.sort_values('reference_date')\<close>, rows with equal dates keeping their order.\<close>

definition sort_by_date :: "row list \<Rightarrow> row list" where
  "sort_by_date rs = sort_key (\<lambda>r. toordinal (row_date r)) rs"

datatype error = TypeError | KeyError

datatype level = INFO | WARNING | ERROR

text \<open>
  The backing file: absent, present but not readable as a table, or holding a table.
  \<open>to_csv\<close> either writes the table or raises, leaving the file in some state.
\<close>

datatype file_state = Missing | Unreadable | Csv frame

datatype to_csv_result = Written | Raised file_state

record analyzer =
  historical_data :: frame
  historical_file :: file_state
  logged :: "(level \<times> string) list"

section \<open>analyzer.py: loading and saving\<close>

definition expected_columns :: "column list" where
  "expected_columns =
     [Reference_date, Country] @ map Rate TARGET_MATURITIES
       @ [Va, Llp, Alpha, Ufr, Cra, Convergence, Coupon_freq]"

text \<open>
  \<open>_load_historical\<close>. Every exception of \<open>read_csv\<close> is caught: the function logs and
  returns \<open>pd.DataFrame()\<close>, the table with no column and no row.
\<close>

definition load_historical :: "file_state \<Rightarrow> (level \<times> string) list \<times> (error + frame)" where
  "load_historical fs =
     (case fs of
        Missing \<Rightarrow>
          ([(INFO, ''Aucun historique existant'')], Inr \<lparr>columns = expected_columns, rows = []\<rparr>)
      | Csv df \<Rightarrow> ([(INFO, ''Historique charge'')], Inr df)
      | Unreadable \<Rightarrow>
          ([(ERROR, ''Erreur lors du chargement de l historique'')],
           Inr \<lparr>columns = [], rows = []\<rparr>))"

text \<open>\<open>save_historical\<close>: \<open>to_csv\<close> inside \<open>try\<close>; the exception is logged.\<close>

definition save_historical :: "to_csv_result \<Rightarrow> analyzer \<Rightarrow> analyzer" where
  "save_historical io a =
     (case io of
        Written \<Rightarrow>
          a\<lparr>historical_file := Csv (historical_data a),
            logged := logged a @ [(INFO, ''Historique sauvegarde'')]\<rparr>
      | Raised fs \<Rightarrow>
          a\<lparr>historical_file := fs,
            logged := logged a @ [(ERROR, ''Erreur lors de la sauvegarde'')]\<rparr>)"

section \<open>analyzer.py: \<open>add_to_historical\<close>\<close>

text \<open>
  The dictionary \<open>row\<close> built from the observation: after the date and the country, one
  entry per target maturity (\<open>data['rates'].get(maturity)\<close>, \<open>None\<close> when absent) and \<open>va\<close>.
\<close>

definition row_items :: "observation \<Rightarrow> (column \<times> float option) list" where
  "row_items data =
     map (\<lambda>maturity. (Rate maturity, map_of (rates data) maturity)) TARGET_MATURITIES
       @ [(Va, va data)]"

definition row_columns :: "column list" where
  "row_columns = [Reference_date, Country] @ map Rate TARGET_MATURITIES @ [Va]"

text \<open>\<open>pd.DataFrame([row])\<close> has one row; a label that \<open>row\<close> lacks has a null cell.\<close>

definition new_row :: "observation \<Rightarrow> row" where
  "new_row data =
     \<lparr>row_date = reference_date data, row_country = country data,
      cells = (\<lambda>c. case map_of (row_items data) c of Some v \<Rightarrow> v | None \<Rightarrow> None)\<rparr>"

definition mask :: "observation \<Rightarrow> row \<Rightarrow> bool" where
  "mask data r \<longleftrightarrow> row_date r = reference_date data \<and> row_country r = country data"

text \<open>
  \<open>df.loc[mask, col] = value\<close>: the cell of every selected row is set; a label that the
  table lacks is added as a new column, null in the other rows.
\<close>

definition loc_set :: "(row \<Rightarrow> bool) \<Rightarrow> column \<Rightarrow> float option \<Rightarrow> frame \<Rightarrow> frame" where
  "loc_set m col v f =
     \<lparr>columns = (if col \<in> set (columns f) then columns f else columns f @ [col]),
      rows = map (\<lambda>r. if m r then r\<lparr>cells := (cells r)(col := v)\<rparr>
                        else if col \<in> set (columns f) then r
                        else r\<lparr>cells := (cells r)(col := None)\<rparr>) (rows f)\<rparr>"

text \<open>The loop \<open>for col, value in row.items()\<close> over the selected rows.\<close>

definition update_existing :: "observation \<Rightarrow> frame \<Rightarrow> frame" where
  "update_existing data f =
     fold (\<lambda>(col, v). loc_set (mask data) col v) (row_items data)
       (f\<lparr>rows := map (\<lambda>r. if mask data r
                              then r\<lparr>row_date := reference_date data, row_country := country data\<rparr>
                              else r) (rows f)\<rparr>)"

text \<open>
  \<open>pd.concat([df, pd.DataFrame([row])], ignore_index=True)\<close>: the labels of \<open>df\<close>, then
  those only \<open>row\<close> has; the old rows are null there.
\<close>

definition concat_row :: "frame \<Rightarrow> observation \<Rightarrow> frame" where
  "concat_row f data =
     \<lparr>columns = columns f @ filter (\<lambda>c. c \<notin> set (columns f)) row_columns,
      rows = map (\<lambda>r. r\<lparr>cells := (\<lambda>c. if c \<in> set (columns f) then cells r c else None)\<rparr>)
               (rows f) @ [new_row data]\<rparr>"

definition upsert :: "observation \<Rightarrow> frame \<Rightarrow> frame" where
  "upsert data f =
     (if \<not> frame_empty f then
        (if \<exists>r \<in> set (rows f). mask data r then update_existing data f
         else concat_row f data)
      else \<lparr>columns = row_columns, rows = [new_row data]\<rparr>)"

definition add_to_historical :: "to_csv_result \<Rightarrow> observation \<Rightarrow> analyzer \<Rightarrow> analyzer" where
  "add_to_historical io data a =
     (let df = historical_data a;
          note = (if \<not> frame_empty df \<and> (\<exists>r \<in> set (rows df). mask data r)
                  then [(INFO, ''Mise a jour d une entree existante'')] else []);
          df1 = upsert data df;
          df2 = df1\<lparr>rows := sort_by_date (rows df1)\<rparr>;
          a1 = save_historical io (a\<lparr>historical_data := df2, logged := logged a @ note\<rparr>)
      in a1\<lparr>logged := logged a1 @ [(INFO, ''Donnee ajoutee'')]\<rparr>)"

section \<open>analyzer.py: lookups\<close>

text \<open>
  The dictionary rebuilt from a row: the rates of the target maturities whose column exists
  and whose cell is not null, and \<open>row['va']\<close>, which raises \<open>KeyError\<close> on a table with no
  \<open>va\<close> column.
\<close>

definition row_to_dict :: "frame \<Rightarrow> row \<Rightarrow> error + observation" where
  "row_to_dict f r =
     (let rates' = List.map_filter
            (\<lambda>maturity. if Rate maturity \<in> set (columns f)
                         then map_option (Pair maturity) (cells r (Rate maturity)) else None)
            TARGET_MATURITIES
      in if Va \<in> set (columns f)
         then Inr \<lparr>reference_date = row_date r, country = row_country r,
                    rates = rates', va = cells r Va\<rparr>
         else Inl KeyError)"

definition get_historical_data :: "frame \<Rightarrow> string \<Rightarrow> datetime \<Rightarrow> error + observation option" where
  "get_historical_data f country' target_date =
     (if frame_empty f then Inr None
      else case filter (\<lambda>r. row_country r = country' \<and> row_date r = target_date) (rows f) of
             [] \<Rightarrow> Inr None
           | r # _ \<Rightarrow> map_sum id Some (row_to_dict f r))"

text \<open>
  The rows of a country whose date is within \<open>days\<close> days of the target, and the first of
  them once sorted by their distance to the target (\<open>candidates.sort_values('diff').iloc[0]\<close>,
  rows at the same distance keeping their order).
\<close>

definition diff :: "datetime \<Rightarrow> row \<Rightarrow> int" where
  "diff target_date r = \<bar>toordinal (row_date r) - toordinal target_date\<bar>"

definition candidates :: "frame \<Rightarrow> string \<Rightarrow> datetime \<Rightarrow> int \<Rightarrow> row list" where
  "candidates f country' target_date days =
     filter (\<lambda>r. row_country r = country'
                \<and> toordinal target_date - days \<le> toordinal (row_date r)
                \<and> toordinal (row_date r) \<le> toordinal target_date + days) (rows f)"

definition closest :: "frame \<Rightarrow> string \<Rightarrow> datetime \<Rightarrow> int \<Rightarrow> error + observation option" where
  "closest f country' target_date days =
     (if frame_empty f then Inr None
      else case sort_key (diff target_date) (candidates f country' target_date days) of
             [] \<Rightarrow> Inr None
           | r # _ \<Rightarrow> map_sum id Some (row_to_dict f r))"

definition get_previous_month_data :: "frame \<Rightarrow> datetime \<Rightarrow> string \<Rightarrow> error + observation option" where
  "get_previous_month_data f current_date country' =
     closest f country' (get_previous_month_date current_date) 5"

definition get_ytd_data :: "frame \<Rightarrow> datetime \<Rightarrow> string \<Rightarrow> error + observation option" where
  "get_ytd_data f current_date country' =
     closest f country' (get_year_start_date current_date) 10"

text \<open>
  \<open>get_time_series\<close>. Selecting a column that the table lacks raises \<open>KeyError\<close>; the
  function tests for the column first.
\<close>

definition select_rate :: "frame \<Rightarrow> nat \<Rightarrow> row list \<Rightarrow> error + (datetime \<times> float option) list" where
  "select_rate f maturity rs =
     (if Rate maturity \<in> set (columns f)
      then Inr (map (\<lambda>r. (row_date r, cells r (Rate maturity))) rs)
      else Inl KeyError)"

definition dropna :: "(datetime \<times> float option) list \<Rightarrow> (datetime \<times> float) list" where
  "dropna xs = List.map_filter (\<lambda>(d, v). map_option (Pair d) v) xs"

definition get_time_series ::
  "frame \<Rightarrow> string \<Rightarrow> nat \<Rightarrow> datetime option \<Rightarrow> datetime option \<Rightarrow> error + (datetime \<times> float) list"
where
  "get_time_series f country' maturity start_date end_date =
     (if frame_empty f then Inr []
      else if Rate maturity \<notin> set (columns f) then Inr []
      else
        let df = filter (\<lambda>r. row_country r = country') (rows f);
            df = (case start_date of None \<Rightarrow> df
                  | Some s \<Rightarrow> filter (\<lambda>r. toordinal s \<le> toordinal (row_date r)) df);
            df = (case end_date of None \<Rightarrow> df
                  | Some e \<Rightarrow> filter (\<lambda>r. toordinal (row_date r) \<le> toordinal e) df)
        in case select_rate f maturity df of
             Inl e \<Rightarrow> Inl e
           | Inr result \<Rightarrow> Inr (sort_key (\<lambda>(d, v). toordinal d) (dropna result)))"

section \<open>utils.py: \<open>create_summary_dict\<close>\<close>

text \<open>
  The keys of \<open>changes_mom\<close> and \<open>changes_ytd\<close> are maturities and the string \<open>'va'\<close>. The two
  blocks of the function are the same computation, once on the previous month and once on
  the start of the year: the deltas of the maturities of \<open>rates\<close> that the anchor has too,
  in the order of \<open>rates\<close>, then the delta of the VA when the anchor has one. With \<open>va\<close> equal
  to \<open>None\<close>, \<open>calculate_bps_change(previous_va, va)\<close> subtracts a float from \<open>None\<close>, which
  raises \<open>TypeError\<close>.
\<close>

datatype key = Maturity nat | Va_key

definition changes ::
  "(nat \<times> float) list \<Rightarrow> float option \<Rightarrow> (nat \<times> float) list option \<Rightarrow> float option
     \<Rightarrow> error + (key \<times> float) list"
where
  "changes rates' va' anchor_rates anchor_va =
     (case anchor_rates of
        None \<Rightarrow> Inr []
      | Some previous_rates \<Rightarrow>
          if previous_rates = [] then Inr []
          else
            let by_maturity = List.map_filter
                  (\<lambda>(maturity, rate).
                      map_option (\<lambda>previous. (Maturity maturity, calculate_bps_change previous rate))
                        (map_of previous_rates maturity)) rates'
            in case anchor_va of
                 None \<Rightarrow> Inr by_maturity
               | Some previous_va \<Rightarrow>
                   (case va' of
                      None \<Rightarrow> Inl TypeError
                    | Some v \<Rightarrow> Inr (by_maturity @ [(Va_key, calculate_bps_change previous_va v)])))"

datatype scan = MoM | YTD

datatype direction = Hausse | Baisse

text \<open>An alert message: the scan, the maturity, the direction and the delta it prints.\<close>

datatype alert = Alert scan nat direction float

record summary =
  s_reference_date :: datetime
  s_country :: string
  s_rates :: "(nat \<times> float) list"
  s_va :: "float option"
  changes_mom :: "(key \<times> float) list"
  changes_ytd :: "(key \<times> float) list"
  previous_date :: "datetime option"
  ytd_date :: "datetime option"
  alerts :: "alert list"

definition create_summary_dict ::
  "datetime \<Rightarrow> string \<Rightarrow> (nat \<times> float) list \<Rightarrow> float option
     \<Rightarrow> (nat \<times> float) list option \<Rightarrow> float option
     \<Rightarrow> (nat \<times> float) list option \<Rightarrow> float option \<Rightarrow> error + summary"
where
  "create_summary_dict reference_date' country' rates' va' previous_rates previous_va ytd_rates ytd_va =
     (case changes rates' va' previous_rates previous_va of
        Inl e \<Rightarrow> Inl e
      | Inr mom \<Rightarrow>
          (case changes rates' va' ytd_rates ytd_va of
             Inl e \<Rightarrow> Inl e
           | Inr ytd \<Rightarrow>
               Inr \<lparr>s_reference_date = reference_date', s_country = country', s_rates = rates',
                    s_va = va', changes_mom = mom, changes_ytd = ytd,
                    previous_date = None, ytd_date = None, alerts = []\<rparr>))"

section \<open>analyzer.py: alerts and analysis\<close>

text \<open>One loop of \<open>_detect_alerts\<close>: the key \<open>'va'\<close> is skipped.\<close>

fun scan_alerts :: "scan \<Rightarrow> rat \<Rightarrow> (key \<times> float) list \<Rightarrow> alert list" where
  "scan_alerts s threshold [] = []"
| "scan_alerts s threshold ((Va_key, change_bps) # items) = scan_alerts s threshold items"
| "scan_alerts s threshold ((Maturity maturity, change_bps) # items) =
     (if threshold \<le> \<bar>change_bps\<bar>
      then Alert s maturity (if 0 < change_bps then Hausse else Baisse) change_bps
             # scan_alerts s threshold items
      else scan_alerts s threshold items)"

definition detect_alerts :: "summary \<Rightarrow> alert list" where
  "detect_alerts summary =
     scan_alerts MoM ALERT_THRESHOLD_MOM (changes_mom summary)
       @ scan_alerts YTD ALERT_THRESHOLD_YTD (changes_ytd summary)"

definition analyze :: "frame \<Rightarrow> observation \<Rightarrow> error + summary" where
  "analyze f current_data =
     (case get_previous_month_data f (reference_date current_data) (country current_data) of
        Inl e \<Rightarrow> Inl e
      | Inr previous_data \<Rightarrow>
     (case get_ytd_data f (reference_date current_data) (country current_data) of
        Inl e \<Rightarrow> Inl e
      | Inr ytd_data \<Rightarrow>
     (case create_summary_dict (reference_date current_data) (country current_data)
             (rates current_data) (va current_data)
             (map_option rates previous_data) (Option.bind previous_data va)
             (map_option rates ytd_data) (Option.bind ytd_data va) of
        Inl e \<Rightarrow> Inl e
      | Inr summary \<Rightarrow>
          let summary = summary\<lparr>previous_date := map_option reference_date previous_data,
                                 ytd_date := map_option reference_date ytd_data\<rparr>
          in Inr (summary\<lparr>alerts := detect_alerts summary\<rparr>))))"

section \<open>Sequences of upserts, and the examples used below\<close>

definition date_sorted :: "row list \<Rightarrow> bool" where
  "date_sorted rs \<longleftrightarrow> sorted (map (\<lambda>r. toordinal (row_date r)) rs)"

definition upserts :: "(to_csv_result \<times> observation) list \<Rightarrow> analyzer \<Rightarrow> analyzer" where
  "upserts ops a = fold (\<lambda>(io, data). add_to_historical io data) ops a"

definition obs_jan :: observation where
  "obs_jan = \<lparr>reference_date = Datetime 2024 1 31, country = ''FR'', rates = [(1, 7 / 256)],
              va = None\<rparr>"

definition obs_feb :: observation where
  "obs_feb = \<lparr>reference_date = Datetime 2024 2 29, country = ''FR'', rates = [(1, 15 / 512)],
              va = None\<rparr>"

definition fresh :: analyzer where
  "fresh = \<lparr>historical_data = \<lparr>columns = expected_columns, rows = []\<rparr>,
            historical_file = Missing, logged = []\<rparr>"

section \<open>Properties\<close>

subsection \<open>The float model\<close>

declare bit_length.simps [simp del]

lemma pow2_powi: "pow2 k = 2 powi k"
  by (simp add: pow2_def power_int_def power_one_over inverse_eq_divide)

lemma pow2_pos: "0 < pow2 k"
  by (simp add: pow2_powi)

lemma pow2_nat: "pow2 (int n) = 2 ^ n"
  by (simp add: pow2_def)

lemma pow2_diff: "pow2 (a - b) = pow2 a / pow2 b"
  by (simp add: pow2_powi power_int_diff)

lemma pow2_less: "a < b \<Longrightarrow> pow2 a < pow2 b"
  by (simp add: pow2_powi power_int_strict_increasing)

lemma pow2_less_iff: "pow2 a < pow2 b \<longleftrightarrow> a < b"
proof
  assume l: "pow2 a < pow2 b"
  show "a < b"
  proof (rule ccontr)
    assume "\<not> a < b"
    then have "b = a \<or> b < a" by auto
    then show False using l pow2_less [of b a] by auto
  qed
qed (rule pow2_less)

lemma bit_length_bounds:
  "0 < n \<Longrightarrow> 2 ^ (bit_length n - 1) \<le> n \<and> n < 2 ^ bit_length n"
proof (induction n rule: bit_length.induct)
  case (1 n)
  show ?case
  proof (cases "n div 2 = 0")
    case True
    then have "n = 1" using 1(2) by auto
    then show ?thesis by (simp add: bit_length.simps)
  next
    case False
    then have ih: "2 ^ (bit_length (n div 2) - 1) \<le> n div 2 \<and> n div 2 < 2 ^ bit_length (n div 2)"
      using 1 by auto
    have pos: "0 < bit_length (n div 2)"
      using False by (subst bit_length.simps) simp
    have eq: "bit_length n = Suc (bit_length (n div 2))"
      using 1(2) by (subst bit_length.simps) simp
    have p: "(2::nat) ^ bit_length (n div 2) = 2 * 2 ^ (bit_length (n div 2) - 1)"
      using pos by (cases "bit_length (n div 2)") auto
    have "2 * 2 ^ (bit_length (n div 2) - 1) \<le> 2 * (n div 2)" using ih by simp
    also have "\<dots> \<le> n" by simp
    finally have lo: "2 ^ bit_length (n div 2) \<le> n" by (simp add: p)
    have "n < 2 * (n div 2) + 2" by arith
    also have "\<dots> \<le> 2 * 2 ^ bit_length (n div 2)" using ih by simp
    finally have hi: "n < 2 ^ Suc (bit_length (n div 2))" by simp
    show ?thesis using lo hi by (simp add: eq)
  qed
qed

lemma bit_length_Suc:
  assumes "0 < n"
  obtains m where "bit_length n = Suc m" and "2 ^ m \<le> n" and "n < 2 ^ Suc m"
proof -
  have B: "2 ^ (bit_length n - 1) \<le> n \<and> n < 2 ^ bit_length n"
    using assms by (rule bit_length_bounds)
  have "bit_length n \<noteq> 0" using assms by (subst bit_length.simps) simp
  then obtain m where m: "bit_length n = Suc m" by (cases "bit_length n") auto
  show ?thesis using B that [of m] by (simp add: m)
qed

lemma floor_log2_bounds:
  assumes "0 < q"
  shows "pow2 (floor_log2 q) \<le> q \<and> q < pow2 (floor_log2 q + 1)"
proof -
  obtain a b where ab: "quotient_of q = (a, b)" by (cases "quotient_of q")
  have b: "0 < b" using ab by (rule quotient_of_denom_pos)
  have q: "q = of_int a / of_int b" using ab by (rule quotient_of_div)
  have a: "0 < a" using assms b q by (simp add: zero_less_divide_iff)
  define na where "na = nat a"
  define nb where "nb = nat b"
  have qn: "q = of_nat na / of_nat nb" using q a b by (simp add: na_def nb_def)
  have "0 < na" using a by (simp add: na_def)
  then obtain ma where la: "bit_length na = Suc ma" and A: "2 ^ ma \<le> na" "na < 2 ^ Suc ma"
    by (rule bit_length_Suc)
  have nbp: "0 < nb" using b by (simp add: nb_def)
  then obtain mb where lb: "bit_length nb = Suc mb" and B: "2 ^ mb \<le> nb" "nb < 2 ^ Suc mb"
    by (rule bit_length_Suc)
  have A1: "(2::rat) ^ ma \<le> of_nat na" using A(1) by (metis of_nat_le_iff of_nat_numeral of_nat_power)
  have A2: "(of_nat na :: rat) < 2 ^ Suc ma" using A(2) by (metis of_nat_less_iff of_nat_numeral of_nat_power)
  have B1: "(2::rat) ^ mb \<le> of_nat nb" using B(1) by (metis of_nat_le_iff of_nat_numeral of_nat_power)
  have B2: "(of_nat nb :: rat) < 2 ^ Suc mb" using B(2) by (metis of_nat_less_iff of_nat_numeral of_nat_power)
  have nbpos: "(0::rat) < of_nat nb" using nbp by simp
  have up: "q < pow2 (int ma - int mb + 1)"
  proof -
    have "q < 2 ^ Suc ma / 2 ^ mb"
      unfolding qn using A2 B1 by (intro frac_less) auto
    also have "\<dots> = pow2 (int (Suc ma)) / pow2 (int mb)" by (simp only: pow2_nat)
    also have "\<dots> = pow2 (int (Suc ma) - int mb)" by (simp only: pow2_diff)
    also have "int (Suc ma) - int mb = int ma - int mb + 1" by simp
    finally show ?thesis .
  qed
  have lo: "pow2 (int ma - int mb - 1) < q"
  proof -
    have "int ma - int mb - 1 = int ma - int (Suc mb)" by simp
    then have "pow2 (int ma - int mb - 1) = pow2 (int ma - int (Suc mb))" by (rule arg_cong)
    also have "\<dots> = pow2 (int ma) / pow2 (int (Suc mb))" by (simp only: pow2_diff)
    also have "\<dots> = 2 ^ ma / 2 ^ Suc mb" by (simp only: pow2_nat)
    also have "\<dots> < q"
      unfolding qn using A1 B2 nbpos by (intro frac_less2) auto
    finally show ?thesis .
  qed
  have k: "int (bit_length (nat a)) - int (bit_length (nat b)) = int ma - int mb"
    using la lb by (simp add: na_def nb_def)
  have fl: "floor_log2 q = (if pow2 (int ma - int mb) \<le> q then int ma - int mb else int ma - int mb - 1)"
    unfolding floor_log2_def ab fst_conv snd_conv k by (simp add: Let_def)
  show ?thesis
  proof (cases "pow2 (int ma - int mb) \<le> q")
    case True
    then show ?thesis using up by (simp add: fl)
  next
    case False
    then show ?thesis using lo by (simp add: fl)
  qed
qed

lemma floor_log2_eq:
  assumes "pow2 k \<le> q" and "q < pow2 (k + 1)"
  shows "floor_log2 q = k"
proof -
  have "0 < q" using pow2_pos assms(1) by (rule less_le_trans)
  then have B: "pow2 (floor_log2 q) \<le> q \<and> q < pow2 (floor_log2 q + 1)"
    by (rule floor_log2_bounds)
  have "pow2 k < pow2 (floor_log2 q + 1)" using assms B by linarith
  then have 1: "k < floor_log2 q + 1" by (simp add: pow2_less_iff)
  have "pow2 (floor_log2 q) < pow2 (k + 1)" using assms B by linarith
  then have 2: "floor_log2 q < k + 1" by (simp add: pow2_less_iff)
  show ?thesis using 1 2 by simp
qed

lemma round_half_even_eqI:
  assumes "\<bar>q - of_int n\<bar> < 1 / 2"
  shows "round_half_even q = n"
proof -
  have "\<lfloor>q\<rfloor> = n \<or> \<lfloor>q\<rfloor> = n - 1" using assms by linarith
  then show ?thesis
  proof
    assume f: "\<lfloor>q\<rfloor> = n"
    then have "q - of_int n < 1 / 2" using assms by linarith
    then show ?thesis by (simp add: round_half_even_def f)
  next
    assume f: "\<lfloor>q\<rfloor> = n - 1"
    have "rat_of_int (n - 1) = of_int n - 1" by simp
    then have "1 / 2 < q - of_int (n - 1)" using assms by linarith
    then show ?thesis by (simp add: round_half_even_def f)
  qed
qed

lemma fl_eqI:
  assumes "- 1022 \<le> k" and "pow2 k \<le> \<bar>q\<bar>" and "\<bar>q\<bar> < pow2 (k + 1)"
    and "\<bar>q / pow2 (k - 52) - of_int n\<bar> < 1 / 2"
  shows "fl q = of_int n * pow2 (k - 52)"
proof -
  have "0 < \<bar>q\<bar>" using pow2_pos assms(2) by (rule less_le_trans)
  then have q: "q \<noteq> 0" by simp
  have e: "floor_log2 \<bar>q\<bar> = k" using assms(2,3) by (rule floor_log2_eq)
  have m: "max (k - 52) (- 1074) = k - 52" using assms(1) by simp
  have r: "round_half_even (q / pow2 (k - 52)) = n" using assms(4) by (rule round_half_even_eqI)
  show ?thesis using q by (simp add: fl_def Let_def e m r)
qed

lemma fl_0310: "fl (31 / 1000) = 1116892707587883 / 36028797018963968"
  using fl_eqI [of "- 6" "31 / 1000" 8935141660703064] by (simp add: pow2_def)

lemma fl_0265: "fl (265 / 10000) = 7638104968020361 / 288230376151711744"
  using fl_eqI [of "- 6" "265 / 10000" 7638104968020361] by (simp add: pow2_def)

lemma fl_0200: "fl (2 / 100) = 5764607523034235 / 288230376151711744"
  using fl_eqI [of "- 6" "2 / 100" 5764607523034235] by (simp add: pow2_def)

lemma fl_0300: "fl (3 / 100) = 1080863910568919 / 36028797018963968"
  using fl_eqI [of "- 6" "3 / 100" 8646911284551352] by (simp add: pow2_def)

lemma bps_0265_0310:
  "calculate_bps_change (fl (265 / 10000)) (fl (31 / 1000)) = 6333186975989761 / 140737488355328"
proof -
  have s: "fsub (fl (31 / 1000)) (fl (265 / 10000)) = 1297036692682703 / 288230376151711744"
    unfolding fsub_def fl_0310 fl_0265
    using fl_eqI [of "- 8" "1116892707587883 / 36028797018963968
      - 7638104968020361 / 288230376151711744" 5188146770730812]
    by (simp add: pow2_def)
  show ?thesis
    unfolding calculate_bps_change_def s fmul_def
    using fl_eqI [of 5 "1297036692682703 / 288230376151711744 * 10000" 6333186975989761]
    by (simp add: pow2_def)
qed

lemma bps_0300_0200:
  "calculate_bps_change (fl (3 / 100)) (fl (2 / 100)) = - (7036874417766399 / 70368744177664)"
proof -
  have s: "fsub (fl (2 / 100)) (fl (3 / 100)) = - (2882303761517117 / 288230376151711744)"
    unfolding fsub_def fl_0200 fl_0300
    using fl_eqI [of "- 7" "5764607523034235 / 288230376151711744
      - 1080863910568919 / 36028797018963968" "- 5764607523034234"]
    by (simp add: pow2_def)
  show ?thesis
    unfolding calculate_bps_change_def s fmul_def
    using fl_eqI [of 6 "- (2882303761517117 / 288230376151711744) * 10000" "- 7036874417766399"]
    by (simp add: pow2_def)
qed

subsection \<open>Basis-point deltas\<close>

text \<open>
  C9 (as stated): the delta of the rates written \<open>0.0310\<close> and \<open>0.0265\<close> is exactly
  \<open>45.0\<close>. It is not: the two literals are not representable, their difference is rounded,
  and the product with \<open>10000\<close> is the float next above \<open>45\<close>.
\<close>

theorem calculate_bps_change_45_counterexample:
  "calculate_bps_change (fl (265 / 10000)) (fl (31 / 1000)) \<noteq> 45"
  unfolding bps_0265_0310 by simp

text \<open>
  C9 (amended): \<open>calculate_bps_change\<close> evaluates \<open>(new_rate - old_rate) * 10000\<close> in
  binary64 arithmetic. For the rates \<open>0.0310\<close> against \<open>0.0265\<close> the result is
  \<open>45 + 2 ^ - 47\<close> (printed \<open>45.00000000000001\<close>), and for \<open>0.0200\<close> against
  \<open>0.0300\<close> it is \<open>- 100 + 2 ^ - 46\<close> (printed \<open>-99.99999999999999\<close>): each is one
  unit in the last place away from the decimal value of the formula.
\<close>

theorem calculate_bps_change_examples:
  "calculate_bps_change (fl (265 / 10000)) (fl (31 / 1000)) = 45 + 1 / 2 ^ 47 \<and>
   calculate_bps_change (fl (3 / 100)) (fl (2 / 100)) = - 100 + 1 / 2 ^ 46"
  unfolding bps_0265_0310 bps_0300_0200 by simp

subsection \<open>The ordering invariant\<close>

lemma historical_data_save [simp]:
  "historical_data (save_historical io a) = historical_data a"
  by (simp add: save_historical_def split: to_csv_result.splits)

lemma historical_data_add:
  "historical_data (add_to_historical io data a) =
     (upsert data (historical_data a))
       \<lparr>rows := sort_by_date (rows (upsert data (historical_data a)))\<rparr>"
  by (simp add: add_to_historical_def Let_def)

lemma date_sorted_sort_by_date: "date_sorted (sort_by_date rs)"
  by (simp add: date_sorted_def sort_by_date_def)

lemma date_sorted_add: "date_sorted (rows (historical_data (add_to_historical io data a)))"
  by (simp add: historical_data_add date_sorted_sort_by_date)

text \<open>
  C8: after any sequence of upserts, from any table when the sequence is not empty and from
  a table sorted by date otherwise, the rows of the historical table are in non-decreasing
  order of \<open>reference_date\<close>.
\<close>

theorem upserts_date_sorted:
  assumes "ops \<noteq> [] \<or> date_sorted (rows (historical_data a))"
  shows "date_sorted (rows (historical_data (upserts ops a)))"
proof (cases ops rule: rev_cases)
  case Nil
  then show ?thesis using assms by (simp add: upserts_def)
next
  case (snoc ops' op)
  obtain io data where op: "op = (io, data)" by (cases op)
  show ?thesis by (simp add: snoc op upserts_def date_sorted_add)
qed

lemma ord_jan: "toordinal (Datetime 2024 1 31) = 738916"
  by (simp add: toordinal_def days_before_year_def days_before_month_def)

lemma ord_feb: "toordinal (Datetime 2024 2 29) = 738945"
  by (simp add: toordinal_def days_before_year_def days_before_month_def days_in_month_def is_leap_def)

theorem upserts_date_sorted_witness:
  "map row_date (rows (historical_data (upserts [(Written, obs_feb), (Written, obs_jan)] fresh)))
     = [Datetime 2024 1 31, Datetime 2024 2 29]
   \<and> date_sorted (rows (historical_data (upserts [(Written, obs_feb), (Written, obs_jan)] fresh)))"
proof -
  have "date_sorted (rows (historical_data (upserts [(Written, obs_feb), (Written, obs_jan)] fresh)))"
    using upserts_date_sorted [of "[(Written, obs_feb), (Written, obs_jan)]" fresh] by simp
  moreover have "map row_date (rows (historical_data (upserts [(Written, obs_feb), (Written, obs_jan)] fresh)))
     = [Datetime 2024 1 31, Datetime 2024 2 29]"
    by (simp add: upserts_def historical_data_add upsert_def frame_empty_def fresh_def
        obs_jan_def obs_feb_def mask_def concat_row_def new_row_def sort_by_date_def ord_jan ord_feb)
  ultimately show ?thesis by simp
qed

end
